theory Spec2Isabelle
  imports Main
begin

section \<open>Python values and exceptions\<close>

text \<open>
  The program is one Python module, \<^verbatim>\<open>aws_scanner_cli_final.py\<close>. It reads a
  credentials file with \<^verbatim>\<open>configparser\<close>, asks the cloud SDK for instances or
  volumes, puts the answer into a \<^verbatim>\<open>pandas.DataFrame\<close> and parses its command line
  with \<^verbatim>\<open>getopt\<close>. Every \<^verbatim>\<open>raise\<close> is a value here: a function that may
  raise returns \<open>exn + 'a\<close>, with \<open>Inl\<close> the exception.
\<close>

datatype exn =
  Exception string
  | ValueError string
  | KeyError string
  | AttributeError string
  | GetoptError string
  | ClientError string

text \<open>
  The values found in an SDK response: strings, booleans, integers, lists and nested
  dictionaries (a dictionary is an association list in insertion order, its keys distinct).
\<close>

datatype pyval =
  PStr string
  | PBool bool
  | PInt int
  | PList "pyval list"
  | PDict "(string \<times> pyval) list"

text \<open>Python's truth test on an optional string (\<^verbatim>\<open>if profile:\<close>, \<^verbatim>\<open>if self.fil:\<close>):
  \<^verbatim>\<open>None\<close> and the empty string are false.\<close>

fun truthy :: "string option \<Rightarrow> bool" where
  "truthy None = False"
| "truthy (Some s) = (s \<noteq> [])"

section \<open>Credential resolver\<close>

text \<open>
  \<^verbatim>\<open>config = configparser.RawConfigParser(); config.read(config_path)\<close> leaves a parser
  whose state is two dictionaries: \<^verbatim>\<open>_defaults\<close>, the options written under the
  header \<^verbatim>\<open>[DEFAULT]\<close>, and \<^verbatim>\<open>_sections\<close>, the options of every other section.
  A file that does not exist is skipped silently, and gives the empty state.
\<close>

record RawConfigParser =
  p_defaults :: "string \<rightharpoonup> string"
  p_sections :: "string \<rightharpoonup> (string \<rightharpoonup> string)"

text \<open>
  \<^verbatim>\<open>dict(value)\<close> for the section proxy \<^verbatim>\<open>value\<close> of the section \<open>key\<close>: the proxy
  iterates over \<^verbatim>\<open>parser.options(key)\<close>, the section's own options updated with the
  defaults, and reads each one through \<^verbatim>\<open>parser.get\<close>, where the section's own value
  comes before the default. The proxy of \<^verbatim>\<open>DEFAULT\<close> gives the defaults alone.
\<close>

definition proxy_dict :: "RawConfigParser \<Rightarrow> string \<Rightarrow> (string \<rightharpoonup> string) option" where
  "proxy_dict config key =
     (if key = ''DEFAULT'' then Some (p_defaults config)
      else case p_sections config key of
             None \<Rightarrow> None
           | Some own \<Rightarrow> Some (p_defaults config ++ own))"

text \<open>What \<^verbatim>\<open>get_profiles\<close> returns: one section's dictionary (or \<^verbatim>\<open>None\<close>), or the
  dictionary of all of them.\<close>

datatype profiles =
  Profile "(string \<rightharpoonup> string) option"
  | All_Profiles "string \<rightharpoonup> (string \<rightharpoonup> string)"

text \<open>
  \<^verbatim>\<open>
  def get_profiles(profile=None, config_path='config'):
      config = configparser.RawConfigParser()
      config.read(config_path)
      config_dict = {key: dict(value) for key, value in config.items()}
      config_dict.pop('DEFAULT')
      if profile:
          return config_dict.get(profile)
      return config_dict
  \<close>
  \<^verbatim>\<open>config.items()\<close> lists \<^verbatim>\<open>DEFAULT\<close> first and then every section, so the key
  \<^verbatim>\<open>DEFAULT\<close> is always there and \<^verbatim>\<open>pop\<close> never raises. The parser after
  \<^verbatim>\<open>read\<close> is the argument \<open>config\<close>.
\<close>

definition get_profiles :: "string option \<Rightarrow> RawConfigParser \<Rightarrow> profiles" where
  "get_profiles profile config =
     (let config_dict = proxy_dict config;
          config_dict = config_dict(''DEFAULT'' := None)
      in if truthy profile then Profile (config_dict (the profile))
         else All_Profiles config_dict)"

section \<open>Data frames\<close>

text \<open>
  A \<^verbatim>\<open>pandas.DataFrame\<close>: its column labels in order, and its rows. A row maps a
  column label to the cell's value; a label it does not map is a missing cell
  (\<^verbatim>\<open>NaN\<close>). \<^verbatim>\<open>len(df)\<close> is the number of rows.
\<close>

record DataFrame =
  columns :: "string list"
  rows :: "(string \<rightharpoonup> pyval) list"

definition DataFrame_empty :: DataFrame where
  "DataFrame_empty = \<lparr>columns = [], rows = []\<rparr>"

definition len :: "DataFrame \<Rightarrow> nat" where
  "len df = length (rows df)"

text \<open>Labels in the order of their first occurrence.\<close>

definition unique :: "'a list \<Rightarrow> 'a list" where
  "unique xs = rev (remdups (rev xs))"

text \<open>
  \<^verbatim>\<open>pd.DataFrame(data)\<close> for a dictionary \<open>data\<close> of columns. pandas finds the row
  labels first (\<^verbatim>\<open>_extract_index\<close>): a list value gives its length, a dictionary value
  its keys, any other value is a scalar and is repeated on every row.
  \<^item> No value at all: no rows.
  \<^item> Only scalars: \<^verbatim>\<open>ValueError\<close>.
  \<^item> Lists of two different lengths, or a list beside a dictionary: \<^verbatim>\<open>ValueError\<close>.
  \<^item> Lists of one length \<open>n\<close>: the rows \<open>0, ..., n - 1\<close>; so a dictionary with an empty
    list among its values gives a frame with no rows.
  \<^item> Dictionaries and scalars: one row for each key of the dictionaries.
\<close>

fun raw_lengths :: "pyval list \<Rightarrow> nat list" where
  "raw_lengths [] = []"
| "raw_lengths (PList xs # vals) = length xs # raw_lengths vals"
| "raw_lengths (v # vals) = raw_lengths vals"

fun indexes :: "pyval list \<Rightarrow> string list list" where
  "indexes [] = []"
| "indexes (PDict d # vals) = map fst d # indexes vals"
| "indexes (v # vals) = indexes vals"

datatype index = RangeIndex nat | Index "string list"

definition extract_index :: "pyval list \<Rightarrow> exn + index" where
  "extract_index vals =
     (if vals = [] then Inr (RangeIndex 0)
      else if indexes vals = [] \<and> raw_lengths vals = [] then
        Inl (ValueError ''If using all scalar values, you must pass an index'')
      else if raw_lengths vals \<noteq> [] then
        (if 1 < length (remdups (raw_lengths vals)) then
           Inl (ValueError ''All arrays must be of the same length'')
         else if indexes vals \<noteq> [] then
           Inl (ValueError ''Mixing dicts with non-Series may lead to ambiguous ordering.'')
         else Inr (RangeIndex (hd (raw_lengths vals))))
      else Inr (Index (unique (concat (indexes vals)))))"

text \<open>The cell a column's value gives at row number \<open>i\<close>, and at the row labelled \<open>k\<close>.\<close>

fun cell_at :: "nat \<Rightarrow> pyval \<Rightarrow> pyval option" where
  "cell_at i (PList xs) = (if i < length xs then Some (xs ! i) else None)"
| "cell_at i v = Some v"

fun cell_of :: "string \<Rightarrow> pyval \<Rightarrow> pyval option" where
  "cell_of k (PDict d) = map_of d k"
| "cell_of k v = Some v"

definition row_with :: "(pyval \<Rightarrow> pyval option) \<Rightarrow> (string \<times> pyval) list \<Rightarrow> (string \<rightharpoonup> pyval)" where
  "row_with cell data = (\<lambda>c. case map_of data c of None \<Rightarrow> None | Some v \<Rightarrow> cell v)"

definition DataFrame_dict :: "(string \<times> pyval) list \<Rightarrow> exn + DataFrame" where
  "DataFrame_dict data =
     (case extract_index (map snd data) of
        Inl e \<Rightarrow> Inl e
      | Inr (RangeIndex n) \<Rightarrow>
          Inr \<lparr>columns = map fst data, rows = map (\<lambda>i. row_with (cell_at i) data) [0..<n]\<rparr>
      | Inr (Index ks) \<Rightarrow>
          Inr \<lparr>columns = map fst data, rows = map (\<lambda>k. row_with (cell_of k) data) ks\<rparr>)"

text \<open>
  \<^verbatim>\<open>pd.DataFrame(records)\<close> for a list of dictionaries: one row for each dictionary,
  the columns are the keys of all of them.
\<close>

definition DataFrame_records :: "(string \<times> pyval) list list \<Rightarrow> DataFrame" where
  "DataFrame_records records =
     \<lparr>columns = unique (concat (map (map fst) records)), rows = map map_of records\<rparr>"

text \<open>\<^verbatim>\<open>pd.concat([a, b])\<close>: the rows of \<open>a\<close>, then those of \<open>b\<close>, over the columns of both.\<close>

definition pd_concat :: "DataFrame \<Rightarrow> DataFrame \<Rightarrow> DataFrame" where
  "pd_concat a b =
     \<lparr>columns = columns a @ filter (\<lambda>c. c \<notin> set (columns a)) (columns b),
      rows = rows a @ rows b\<rparr>"

text \<open>
  \<^verbatim>\<open>df[df[label] == x]\<close>: \<^verbatim>\<open>df[label]\<close> raises \<^verbatim>\<open>KeyError\<close> when the frame has
  no such column; the comparison is made cell by cell (\<open>test\<close>), and the rows where it
  holds are kept in their order.
\<close>

definition select_where :: "DataFrame \<Rightarrow> string \<Rightarrow> (pyval option \<Rightarrow> bool) \<Rightarrow> exn + DataFrame" where
  "select_where df label test =
     (if label \<in> set (columns df)
      then Inr (df\<lparr>rows := filter (\<lambda>r. test (r label)) (rows df)\<rparr>)
      else Inl (KeyError label))"

text \<open>\<^verbatim>\<open>cell == s\<close> for a string \<open>s\<close>: true for the same string only; a missing cell
  equals nothing.\<close>

fun eq_str :: "string \<Rightarrow> pyval option \<Rightarrow> bool" where
  "eq_str s (Some (PStr t)) = (t = s)"
| "eq_str s c = False"

text \<open>\<^verbatim>\<open>cell == False\<close>: Python's \<^verbatim>\<open>False\<close> equals the boolean \<^verbatim>\<open>False\<close> and
  the number \<open>0\<close>.\<close>

fun eq_False :: "pyval option \<Rightarrow> bool" where
  "eq_False (Some (PBool b)) = (\<not> b)"
| "eq_False (Some (PInt n)) = (n = 0)"
| "eq_False c = False"

section \<open>What a query method gives back\<close>

text \<open>
  A query method returns a frame or a string, and every one of them wraps its body in
  \<^verbatim>\<open>try: ... except: print(message)\<close>: an exception of the body is caught, the
  message is printed and the method returns \<^verbatim>\<open>None\<close>. The outcome is the list of
  lines printed and the value returned.
\<close>

datatype returned = PyNone | PyStr string | Frame DataFrame

definition try_except :: "string \<Rightarrow> exn + returned \<Rightarrow> string list \<times> returned" where
  "try_except message body =
     (case body of Inl e \<Rightarrow> ([message], PyNone) | Inr r \<Rightarrow> ([], r))"

text \<open>The attributes every scanner stores in \<^verbatim>\<open>__init__\<close>.\<close>

record Scanner =
  profile :: string
  region :: string
  operation :: string
  fil :: "string option"
  sort' :: "string option"

section \<open>Instance scanner\<close>

text \<open>
  An instance as the queries read it: \<^verbatim>\<open>instance.id\<close>,
  \<^verbatim>\<open>instance.monitoring["State"]\<close> and \<^verbatim>\<open>instance.state["Name"]\<close>.
\<close>

record ec2_instance =
  instance_id :: string
  monitoring_State :: string
  state_Name :: string

text \<open>One entry of the \<^verbatim>\<open>Filters\<close> argument: \<^verbatim>\<open>{"Name": ..., "Values": ...}\<close>.\<close>

record Filter =
  Name :: string
  Values :: "string list"

text \<open>
  \<^verbatim>\<open>self.ec2_resource.instances.filter(Filters=...)\<close> and the iteration over its result
  are the SDK's: the handle is a function from the filters to the instances listed, or
  to the exception raised (also when the constructor failed and left no handle).
\<close>

record EC2_Scanner = Scanner +
  ec2_resource :: "Filter list \<Rightarrow> exn + ec2_instance list"

text \<open>
  Lines 77-83 and 120-134: the values of the filter.
  \<^verbatim>\<open>
  fil = self.fil
  if fil == "all":
      fil = ["enabled", "disabled"]
  else:
      value = ''  # added to remove errors, can remove this
      fil = [value]
  \<close>
\<close>

definition monitoring_values :: "string option \<Rightarrow> string list" where
  "monitoring_values self_fil =
     (if self_fil = Some ''all'' then [''enabled'', ''disabled''] else [''''])"

definition state_values :: "string option \<Rightarrow> string list" where
  "state_values self_fil =
     (if self_fil = Some ''all''
      then [''pending'', ''running'', ''shutting-down'', ''terminated'', ''stopping'', ''stopped'']
      else [''''])"

text \<open>Lines 85 and 136: the \<^verbatim>\<open>Filters\<close> argument of the call.\<close>

definition monitoring_Filters :: "'a Scanner_scheme \<Rightarrow> Filter list" where
  "monitoring_Filters self =
     [\<lparr>Name = ''monitoring-state'', Values = monitoring_values (fil self)\<rparr>]"

definition state_Filters :: "'a Scanner_scheme \<Rightarrow> Filter list" where
  "state_Filters self =
     [\<lparr>Name = ''instance-state-name'', Values = state_values (fil self)\<rparr>]"

text \<open>Lines 87-103 and 138-153: the two lists filled by the loop, the frame built from
  them, and the sentinel for a frame with no rows.\<close>

definition two_columns :: "string \<Rightarrow> string \<Rightarrow> (ec2_instance \<Rightarrow> string) \<Rightarrow> ec2_instance list \<Rightarrow> exn + returned" where
  "two_columns first_label second_label attribute instances =
     (let instanceId = map instance_id instances;
          instanceAttr = map attribute instances;
          data = [(first_label, PList (map PStr instanceId)),
                  (second_label, PList (map PStr instanceAttr))]
      in case DataFrame_dict data of
           Inl e \<Rightarrow> Inl e
         | Inr dataframe \<Rightarrow>
             if len dataframe = 0 then Inr (PyStr ''No Instances'') else Inr (Frame dataframe))"

definition get_instances_by_monitoring :: "'a EC2_Scanner_scheme \<Rightarrow> string list \<times> returned" where
  "get_instances_by_monitoring self =
     try_except ''Something went wrong while getting ec2 instances by monitoring ''
       (case ec2_resource self (monitoring_Filters self) of
          Inl e \<Rightarrow> Inl e
        | Inr instances \<Rightarrow> two_columns ''Instance'' ''Monitoring'' monitoring_State instances)"

definition get_instances_by_state :: "'a EC2_Scanner_scheme \<Rightarrow> string list \<times> returned" where
  "get_instances_by_state self =
     try_except ''Something went wrong while getting ec2 instances by state.''
       (case ec2_resource self (state_Filters self) of
          Inl e \<Rightarrow> Inl e
        | Inr instances \<Rightarrow> two_columns ''Instance'' ''State'' state_Name instances)"

section \<open>Volume scanner\<close>

text \<open>
  The response of \<^verbatim>\<open>describe_volumes()\<close>, as far as the queries read it:
  \<^verbatim>\<open>response["ResponseMetadata"]["HTTPStatusCode"]\<close> and \<^verbatim>\<open>response["Volumes"]\<close>,
  a list of dictionaries, one for each volume. The client handle is the outcome of the
  call: the response, or the exception raised.
\<close>

record describe_volumes_response =
  HTTPStatusCode :: int
  Volumes :: "(string \<times> pyval) list list"

record EBS_Scanner = Scanner +
  ec2_client :: "exn + describe_volumes_response"

text \<open>
  The loop of \<^verbatim>\<open>get_volumes_by_state\<close>:
  \<^verbatim>\<open>
  for each_volume in volume_detail["Volumes"]:
      volumes_df = pd.concat([volumes_df, pd.DataFrame(each_volume)])
  \<close>
\<close>

fun accumulate :: "DataFrame \<Rightarrow> (string \<times> pyval) list list \<Rightarrow> exn + DataFrame" where
  "accumulate volumes_df [] = Inr volumes_df"
| "accumulate volumes_df (each_volume # remaining) =
     (case DataFrame_dict each_volume of
        Inl e \<Rightarrow> Inl e
      | Inr df \<Rightarrow> accumulate (pd_concat volumes_df df) remaining)"

text \<open>Lines 218-226: the table before the filter.\<close>

definition volumes_table :: "describe_volumes_response \<Rightarrow> exn + DataFrame" where
  "volumes_table volume_detail =
     (if HTTPStatusCode volume_detail = 200
      then accumulate DataFrame_empty (Volumes volume_detail)
      else Inr DataFrame_empty)"

definition get_volumes_by_state :: "'a EBS_Scanner_scheme \<Rightarrow> string list \<times> returned" where
  "get_volumes_by_state self =
     try_except ''Something went wrong while getting ebs volumes by state.''
       (case ec2_client self of
          Inl e \<Rightarrow> Inl e
        | Inr volume_detail \<Rightarrow>
            (case volumes_table volume_detail of
               Inl e \<Rightarrow> Inl e
             | Inr volumes_df \<Rightarrow>
                 if len volumes_df = 0 then Inr (PyStr ''No Volumes'')
                 else if truthy (fil self) then
                   (case select_where volumes_df ''State'' (eq_str (the (fil self))) of
                      Inl e \<Rightarrow> Inl e
                    | Inr selected \<Rightarrow> Inr (Frame selected))
                 else Inr (Frame volumes_df)))"

definition get_volumes_by_encryption :: "'a EBS_Scanner_scheme \<Rightarrow> string list \<times> returned" where
  "get_volumes_by_encryption self =
     try_except ''Something went wrong while getting ebs volumes by encryption.''
       (case ec2_client self of
          Inl e \<Rightarrow> Inl e
        | Inr response \<Rightarrow>
            (let volumelist = Volumes response;
                 volumns_df = DataFrame_records volumelist
             in if 0 < len volumns_df then
                  (case select_where volumns_df ''Encrypted'' eq_False of
                     Inl e \<Rightarrow> Inl e
                   | Inr selected \<Rightarrow> Inr (Frame selected))
                else Inr (PyStr ''No Volumes'')))"


section \<open>Command line: \<^verbatim>\<open>getopt\<close>\<close>

text \<open>
  \<^verbatim>\<open>getopt.getopt(args, shortopts, longopts)\<close> of the standard library, function by
  function. The options found are pairs of the option's name and its argument.
\<close>

definition startswith :: "string \<Rightarrow> string \<Rightarrow> bool" where
  "startswith s p = (take (length p) s = p)"

definition endswith :: "string \<Rightarrow> string \<Rightarrow> bool" where
  "endswith s p = (length p \<le> length s \<and> drop (length s - length p) s = p)"

text \<open>
  \<^verbatim>\<open>
  def long_has_args(opt, longopts):
      possibilities = [o for o in longopts if o.startswith(opt)]
      if not possibilities:
          raise GetoptError(_('option --%s not recognized') % opt, opt)
      if opt in possibilities:
          return False, opt
      elif opt + '=' in possibilities:
          return True, opt
      if len(possibilities) > 1:
          raise GetoptError(_('option --%s not a unique prefix') % opt, opt)
      unique_match = possibilities[0]
      has_arg = unique_match.endswith('=')
      if has_arg:
          unique_match = unique_match[:-1]
      return has_arg, unique_match
  \<close>
\<close>

definition long_has_args :: "string \<Rightarrow> string list \<Rightarrow> exn + (bool \<times> string)" where
  "long_has_args opt longopts =
     (let possibilities = filter (\<lambda>l. startswith l opt) longopts
      in if possibilities = [] then
           Inl (GetoptError (''option --'' @ opt @ '' not recognized''))
         else if opt \<in> set possibilities then Inr (False, opt)
         else if opt @ ''='' \<in> set possibilities then Inr (True, opt)
         else if 1 < length possibilities then
           Inl (GetoptError (''option --'' @ opt @ '' not a unique prefix''))
         else
           (let unique_match = hd possibilities;
                has_arg = endswith unique_match ''=''
            in Inr (has_arg, if has_arg then butlast unique_match else unique_match)))"

text \<open>
  \<^verbatim>\<open>
  def do_longs(opts, opt, longopts, args):
      try:
          i = opt.index('=')
      except ValueError:
          optarg = None
      else:
          opt, optarg = opt[:i], opt[i+1:]
      has_arg, opt = long_has_args(opt, longopts)
      if has_arg:
          if optarg is None:
              if not args:
                  raise GetoptError(_('option --%s requires argument') % opt, opt)
              optarg, args = args[0], args[1:]
      elif optarg is not None:
          raise GetoptError(_('option --%s must not have an argument') % opt, opt)
      opts.append(('--' + opt, optarg or ''))
      return opts, args
  \<close>
\<close>

definition do_longs ::
  "(string \<times> string) list \<Rightarrow> string \<Rightarrow> string list \<Rightarrow> string list
     \<Rightarrow> exn + ((string \<times> string) list \<times> string list)" where
  "do_longs opts opt longopts args =
     (let optarg = (if CHR ''='' \<in> set opt
                    then Some (tl (dropWhile (\<lambda>c. c \<noteq> CHR ''='') opt)) else None);
          opt = takeWhile (\<lambda>c. c \<noteq> CHR ''='') opt
      in case long_has_args opt longopts of
           Inl e \<Rightarrow> Inl e
         | Inr (has_arg, opt) \<Rightarrow>
             if has_arg then
               (case optarg of
                  None \<Rightarrow>
                    (case args of
                       [] \<Rightarrow> Inl (GetoptError (''option --'' @ opt @ '' requires argument''))
                     | a # args \<Rightarrow> Inr (opts @ [(''--'' @ opt, a)], args))
                | Some v \<Rightarrow> Inr (opts @ [(''--'' @ opt, v)], args))
             else
               (case optarg of
                  Some v \<Rightarrow>
                    Inl (GetoptError (''option --'' @ opt @ '' must not have an argument''))
                | None \<Rightarrow> Inr (opts @ [(''--'' @ opt, '''')], args)))"

text \<open>
  \<^verbatim>\<open>
  def short_has_arg(opt, shortopts):
      for i in range(len(shortopts)):
          if opt == shortopts[i] != ':':
              return shortopts.startswith(':', i+1)
      raise GetoptError(_('option -%s not recognized') % opt, opt)
  \<close>
\<close>

fun short_has_arg :: "char \<Rightarrow> string \<Rightarrow> exn + bool" where
  "short_has_arg opt [] = Inl (GetoptError (''option -'' @ [opt] @ '' not recognized''))"
| "short_has_arg opt (c # shortopts) =
     (if opt = c \<and> c \<noteq> CHR '':'' then Inr (startswith shortopts '':'')
      else short_has_arg opt shortopts)"

text \<open>
  \<^verbatim>\<open>
  def do_shorts(opts, optstring, shortopts, args):
      while optstring != '':
          opt, optstring = optstring[0], optstring[1:]
          if short_has_arg(opt, shortopts):
              if optstring == '':
                  if not args:
                      raise GetoptError(_('option -%s requires argument') % opt, opt)
                  optstring, args = args[0], args[1:]
              optarg, optstring = optstring, ''
          else:
              optarg = ''
          opts.append(('-' + opt, optarg))
      return opts, args
  \<close>
\<close>

fun do_shorts ::
  "(string \<times> string) list \<Rightarrow> string \<Rightarrow> string \<Rightarrow> string list
     \<Rightarrow> exn + ((string \<times> string) list \<times> string list)" where
  "do_shorts opts [] shortopts args = Inr (opts, args)"
| "do_shorts opts (opt # optstring) shortopts args =
     (case short_has_arg opt shortopts of
        Inl e \<Rightarrow> Inl e
      | Inr True \<Rightarrow>
          (if optstring = [] then
             (case args of
                [] \<Rightarrow> Inl (GetoptError (''option -'' @ [opt] @ '' requires argument''))
              | a # args \<Rightarrow> Inr (opts @ [([CHR ''-'', opt], a)], args))
           else Inr (opts @ [([CHR ''-'', opt], optstring)], args))
      | Inr False \<Rightarrow> do_shorts (opts @ [([CHR ''-'', opt], '''')]) optstring shortopts args)"

lemma do_longs_args:
  "do_longs opts opt longopts args = Inr (opts', args') \<Longrightarrow> length args' \<le> length args"
  by (auto simp: do_longs_def Let_def split: sum.splits if_splits option.splits list.splits)

lemma do_shorts_args:
  "do_shorts opts optstring shortopts args = Inr (opts', args') \<Longrightarrow> length args' \<le> length args"
  by (induction opts optstring shortopts args rule: do_shorts.induct)
     (auto split: sum.splits if_splits list.splits bool.splits)

text \<open>
  \<^verbatim>\<open>
  def getopt(args, shortopts, longopts = []):
      opts = []
      ...
      while args and args[0].startswith('-') and args[0] != '-':
          if args[0] == '--':
              args = args[1:]
              break
          if args[0].startswith('--'):
              opts, args = do_longs(opts, args[0][2:], longopts, args[1:])
          else:
              opts, args = do_shorts(opts, args[0][1:], shortopts, args[1:])
      return opts, args
  \<close>
  The loop is \<open>getopt_loop\<close>; every round takes at least the first argument away.
\<close>

function getopt_loop ::
  "(string \<times> string) list \<Rightarrow> string list \<Rightarrow> string \<Rightarrow> string list
     \<Rightarrow> exn + ((string \<times> string) list \<times> string list)" where
  "getopt_loop opts [] shortopts longopts = Inr (opts, [])"
| "getopt_loop opts (a # args) shortopts longopts =
     (if startswith a ''-'' \<and> a \<noteq> ''-'' then
        (if a = ''--'' then Inr (opts, args)
         else if startswith a ''--'' then
           (case do_longs opts (drop 2 a) longopts args of
              Inl e \<Rightarrow> Inl e
            | Inr (opts', args') \<Rightarrow> getopt_loop opts' args' shortopts longopts)
         else
           (case do_shorts opts (drop 1 a) shortopts args of
              Inl e \<Rightarrow> Inl e
            | Inr (opts', args') \<Rightarrow> getopt_loop opts' args' shortopts longopts))
      else Inr (opts, a # args))"
  by pat_completeness auto
termination
  by (relation "measure (\<lambda>(opts, args, shortopts, longopts). length args)")
     (auto dest: do_longs_args do_shorts_args)

definition getopt ::
  "string list \<Rightarrow> string \<Rightarrow> string list \<Rightarrow> exn + ((string \<times> string) list \<times> string list)" where
  "getopt args shortopts longopts = getopt_loop [] args shortopts longopts"

section \<open>Command dispatcher\<close>

text \<open>
  The script under \<^verbatim>\<open>if __name__ == '__main__':\<close>. Its argument is
  \<^verbatim>\<open>sys.argv[1:]\<close>. What it does is a list of events, in order: the arguments
  handed to \<^verbatim>\<open>getopt\<close>, a class whose help is printed, a scanner constructed with
  its five arguments, a query method called. A scanner reaches the network only inside
  a query method. The second component is the exception the script itself raises, or
  \<open>()\<close> when it raises none. The constructors and the queries are calls the script
  makes and the trace records: a query catches every exception itself, and a constructor
  lets one escape only when \<^verbatim>\<open>config.read\<close> cannot parse the credentials file, which
  the trace leaves out.
\<close>

datatype event =
  Getopt "string list"
  | Help string
  | Construct string Scanner
  | Call string

definition options :: string where
  "options = ''orpfsh:''"

definition long_options :: "string list" where
  "long_options = [''operation='', ''region='', ''profile='', ''filter='', ''sort='', ''help='']"

text \<open>Lines 291-298, for one pair of \<^verbatim>\<open>arguments\<close>.\<close>

definition print_help :: "string \<times> string \<Rightarrow> event list" where
  "print_help a =
     (case a of (currentArgument, currentValue) \<Rightarrow>
        if currentArgument = ''-h'' \<or> currentArgument = ''--help'' then
          (if currentValue = ''ec2'' then [Help ''EC2_Scanner'']
           else if currentValue = ''ebs'' then [Help ''EBS_Scanner'']
           else [Help ''EC2_Scanner'', Help ''EBS_Scanner''])
        else [])"

text \<open>Lines 284-300: the first argument is \<^verbatim>\<open>--help\<close> (so the list is not empty).\<close>

definition help_branch :: "string list \<Rightarrow> event list \<times> (exn + unit)" where
  "help_branch argumentList =
     (let argumentList =
            (if length argumentList = 1 then argumentList @ [''both''] else argumentList)
      in if argumentList ! 1 = ''ec2'' \<or> argumentList ! 1 = ''ebs'' \<or> argumentList ! 1 = ''both''
         then
           (case getopt argumentList options long_options of
              Inl e \<Rightarrow> ([Getopt argumentList], Inl e)
            | Inr (arguments, vals) \<Rightarrow>
                (Getopt argumentList # concat (map print_help arguments), Inr ()))
         else ([], Inl (ValueError ''Valid arguments --help ec2 | --help ebs | --help'')))"

text \<open>
  Lines 303-338, after \<^verbatim>\<open>del argumentList[0]\<close>. \<^verbatim>\<open>dict(arguments)\<close> keeps the
  last value of an option given twice; \<^verbatim>\<open>arguments_dict.get(k)\<close> is \<^verbatim>\<open>None\<close>
  for an option that was not given.
\<close>

definition scan_branch :: "string \<Rightarrow> string list \<Rightarrow> event list \<times> (exn + unit)" where
  "scan_branch aws_service argumentList =
     (if aws_service = ''ec2'' \<or> aws_service = ''ebs'' then
        (case getopt argumentList options long_options of
           Inl e \<Rightarrow> ([Getopt argumentList], Inl e)
         | Inr (arguments, vals) \<Rightarrow>
             (let arguments_dict = map_of (rev arguments)
              in if arguments_dict ''--operation'' \<noteq> None
                    \<and> arguments_dict ''--region'' \<noteq> None
                    \<and> arguments_dict ''--profile'' \<noteq> None
                 then
                   (let method_to_call = arguments_dict ''--operation'';
                        scanner = \<lparr>profile = the (arguments_dict ''--profile''),
                                   region = the (arguments_dict ''--region''),
                                   operation = the (arguments_dict ''--operation''),
                                   fil = arguments_dict ''--filter'',
                                   sort' = arguments_dict ''--sort''\<rparr>
                    in if aws_service = ''ec2'' then
                         ([Getopt argumentList, Construct ''EC2_Scanner'' scanner,
                           Call (if method_to_call = Some ''state''
                                 then ''get_instances_by_state''
                                 else ''get_instances_by_monitoring'')], Inr ())
                       else
                         ([Getopt argumentList, Construct ''EBS_Scanner'' scanner,
                           Call (if method_to_call = Some ''state''
                                 then ''get_volumes_by_state''
                                 else ''get_volumes_by_encryption'')], Inr ()))
                 else
                   ([Getopt argumentList],
                    Inl (ValueError ''Missing any argument: --operation,--region,--profile''))))
      else ([], Inl (ValueError ''Missing ec2 or ebs.'')))"

definition main :: "string list \<Rightarrow> event list \<times> (exn + unit)" where
  "main argumentList =
     (case argumentList of
        [] \<Rightarrow> ([], Inl (Exception ''Please provide arguments.''))
      | aws_service # remaining \<Rightarrow>
          if aws_service = ''--help'' then help_branch argumentList
          else scan_branch aws_service remaining)"

text \<open>
  An option is given on a command line when \<^verbatim>\<open>getopt\<close> reads the arguments
  without an error and finds it: spelled in full, or by a prefix no other long option
  starts with, and before the first argument that is not an option.
\<close>

definition given :: "string \<Rightarrow> string list \<Rightarrow> bool" where
  "given name argumentList =
     (case getopt argumentList options long_options of
        Inl e \<Rightarrow> False
      | Inr (arguments, vals) \<Rightarrow> name \<in> fst ` set arguments)"

section \<open>Example inputs\<close>

text \<open>
  Three volumes as \<^verbatim>\<open>describe_volumes\<close> lists them: one attached to an instance, one
  attached and encrypted, and one attached to nothing (its list of attachments is empty).
\<close>

definition volume_attached :: "(string \<times> pyval) list" where
  "volume_attached =
     [(''Attachments'', PList [PDict [(''InstanceId'', PStr ''i-1'')]]),
      (''Encrypted'', PBool False), (''State'', PStr ''in-use''), (''VolumeId'', PStr ''vol-1'')]"

definition volume_encrypted :: "(string \<times> pyval) list" where
  "volume_encrypted =
     [(''Attachments'', PList [PDict [(''InstanceId'', PStr ''i-2'')]]),
      (''Encrypted'', PBool True), (''State'', PStr ''in-use''), (''VolumeId'', PStr ''vol-2'')]"

definition volume_unattached :: "(string \<times> pyval) list" where
  "volume_unattached =
     [(''Attachments'', PList []),
      (''Encrypted'', PBool False), (''State'', PStr ''available''), (''VolumeId'', PStr ''vol-3'')]"

text \<open>A volume attached to an instance and carrying two tags.\<close>

definition volume_tagged :: "(string \<times> pyval) list" where
  "volume_tagged =
     [(''Attachments'', PList [PDict [(''InstanceId'', PStr ''i-4'')]]),
      (''Encrypted'', PBool False), (''State'', PStr ''in-use''),
      (''Tags'', PList [PDict [(''Key'', PStr ''Name''), (''Value'', PStr ''data'')],
                        PDict [(''Key'', PStr ''team''), (''Value'', PStr ''ops'')]]),
      (''VolumeId'', PStr ''vol-4'')]"

text \<open>A volume scanner whose call answers with the given status code and volumes.\<close>

definition ebs_scanner ::
  "string option \<Rightarrow> int \<Rightarrow> (string \<times> pyval) list list \<Rightarrow> EBS_Scanner" where
  "ebs_scanner f status volumes =
     \<lparr>profile = ''default'', region = ''us-east-1'', operation = ''state'', fil = f,
      sort' = None, ec2_client = Inr \<lparr>HTTPStatusCode = status, Volumes = volumes\<rparr>\<rparr>"

text \<open>
  An instance scanner over a fleet: the handle lists the instances of the fleet whose
  attribute is one of the values of every filter, as the service does.
\<close>

definition matches :: "Filter \<Rightarrow> ec2_instance \<Rightarrow> bool" where
  "matches f i =
     (if Name f = ''monitoring-state'' then monitoring_State i \<in> set (Values f)
      else if Name f = ''instance-state-name'' then state_Name i \<in> set (Values f)
      else True)"

definition ec2_scanner :: "string option \<Rightarrow> ec2_instance list \<Rightarrow> EC2_Scanner" where
  "ec2_scanner f fleet =
     \<lparr>profile = ''default'', region = ''us-east-1'', operation = ''state'', fil = f,
      sort' = None,
      ec2_resource = (\<lambda>filters. Inr (filter (\<lambda>i. list_all (\<lambda>f. matches f i) filters) fleet))\<rparr>"

text \<open>A credentials file with a key under \<^verbatim>\<open>[DEFAULT]\<close> and one profile:
  \<^verbatim>\<open>
  [DEFAULT]
  region = us-east-1
  [default]
  aws_access_key_id = AKIA
  \<close>\<close>

definition config_inherit :: RawConfigParser where
  "config_inherit =
     \<lparr>p_defaults = [''region'' \<mapsto> ''us-east-1''],
      p_sections = [''default'' \<mapsto> [''aws_access_key_id'' \<mapsto> ''AKIA'']]\<rparr>"

definition instance_running :: ec2_instance where
  "instance_running =
     \<lparr>instance_id = ''i-1'', monitoring_State = ''disabled'', state_Name = ''running''\<rparr>"

section \<open>Theorems\<close>

lemmas examples =
  volume_attached_def volume_encrypted_def volume_unattached_def ebs_scanner_def
  ec2_scanner_def instance_running_def matches_def

lemmas getopt_eval = getopt_def do_longs_def long_has_args_def startswith_def endswith_def
  options_def long_options_def Let_def

subsection \<open>Instance scanner\<close>

lemma DataFrame_dict_two_lists:
  assumes "length xs = length ys" and "a \<noteq> b"
  shows "DataFrame_dict [(a, PList xs), (b, PList ys)] =
           Inr \<lparr>columns = [a, b],
                rows = map (\<lambda>i. [a \<mapsto> xs ! i, b \<mapsto> ys ! i]) [0..<length xs]\<rparr>"
proof -
  have idx: "extract_index [PList xs, PList ys] = Inr (RangeIndex (length xs))"
    using assms by (simp add: extract_index_def)
  have row: "row_with (cell_at i) [(a, PList xs), (b, PList ys)] = [a \<mapsto> xs ! i, b \<mapsto> ys ! i]"
    if "i < length xs" for i
    using that assms by (auto simp: row_with_def fun_eq_iff)
  show ?thesis
    using idx row by (simp add: DataFrame_dict_def)
qed

lemma two_columns_cases:
  assumes "a \<noteq> b"
  shows "two_columns a b attribute instances =
     (if instances = [] then Inr (PyStr ''No Instances'')
      else Inr (Frame \<lparr>columns = [a, b],
                        rows = map (\<lambda>i. [a \<mapsto> PStr (instance_id i), b \<mapsto> PStr (attribute i)])
                                 instances\<rparr>))"
proof -
  let ?xs = "map PStr (map instance_id instances)"
  let ?ys = "map PStr (map attribute instances)"
  have "map (\<lambda>i. [a \<mapsto> ?xs ! i, b \<mapsto> ?ys ! i]) [0..<length ?xs] =
        map (\<lambda>i. [a \<mapsto> PStr (instance_id i), b \<mapsto> PStr (attribute i)]) instances"
    by (rule nth_equalityI) simp_all
  then show ?thesis
    using DataFrame_dict_two_lists [of ?xs ?ys a b] assms
    by (simp add: two_columns_def len_def)
qed

lemma get_instances_by_monitoring_cases:
  "get_instances_by_monitoring self =
     (case ec2_resource self (monitoring_Filters self) of
        Inl e \<Rightarrow> ([''Something went wrong while getting ec2 instances by monitoring ''], PyNone)
      | Inr instances \<Rightarrow>
          if instances = [] then ([], PyStr ''No Instances'')
          else ([], Frame \<lparr>columns = [''Instance'', ''Monitoring''],
                            rows = map (\<lambda>i. [''Instance'' \<mapsto> PStr (instance_id i),
                                               ''Monitoring'' \<mapsto> PStr (monitoring_State i)])
                                     instances\<rparr>))"
  by (simp add: get_instances_by_monitoring_def try_except_def two_columns_cases split: sum.splits)

lemma get_instances_by_state_cases:
  "get_instances_by_state self =
     (case ec2_resource self (state_Filters self) of
        Inl e \<Rightarrow> ([''Something went wrong while getting ec2 instances by state.''], PyNone)
      | Inr instances \<Rightarrow>
          if instances = [] then ([], PyStr ''No Instances'')
          else ([], Frame \<lparr>columns = [''Instance'', ''State''],
                            rows = map (\<lambda>i. [''Instance'' \<mapsto> PStr (instance_id i),
                                               ''State'' \<mapsto> PStr (state_Name i)])
                                     instances\<rparr>))"
  by (simp add: get_instances_by_state_def try_except_def two_columns_cases split: sum.splits)

text \<open>
  Claim C1. Whatever filter value the scanner stores, unless it is the string
  \<^verbatim>\<open>"all"\<close>, both queries call the service with the one filter value \<^verbatim>\<open>''\<close>:
  the caller's value (\<^verbatim>\<open>None\<close> or any other string) is not used, each query
  returns what it returns for a scanner with no filter, and what it returns is made of the
  service's answer to that call. Only \<^verbatim>\<open>"all"\<close> gives the lists of states, and then
  the query is made of the answer to the call with those lists.
\<close>

theorem instance_filter_values:
  "(fil self \<noteq> Some ''all'' \<longrightarrow>
      monitoring_Filters self = [\<lparr>Name = ''monitoring-state'', Values = ['''']\<rparr>]
      \<and> state_Filters self = [\<lparr>Name = ''instance-state-name'', Values = ['''']\<rparr>]
      \<and> get_instances_by_monitoring self = get_instances_by_monitoring (self\<lparr>fil := None\<rparr>)
      \<and> get_instances_by_state self = get_instances_by_state (self\<lparr>fil := None\<rparr>)
      \<and> get_instances_by_monitoring self =
          (case ec2_resource self [\<lparr>Name = ''monitoring-state'', Values = ['''']\<rparr>] of
             Inl e \<Rightarrow> ([''Something went wrong while getting ec2 instances by monitoring ''], PyNone)
           | Inr instances \<Rightarrow>
               if instances = [] then ([], PyStr ''No Instances'')
               else ([], Frame \<lparr>columns = [''Instance'', ''Monitoring''],
                      rows = map (\<lambda>i. [''Instance'' \<mapsto> PStr (instance_id i),
                                         ''Monitoring'' \<mapsto> PStr (monitoring_State i)])
                               instances\<rparr>))
      \<and> get_instances_by_state self =
          (case ec2_resource self [\<lparr>Name = ''instance-state-name'', Values = ['''']\<rparr>] of
             Inl e \<Rightarrow> ([''Something went wrong while getting ec2 instances by state.''], PyNone)
           | Inr instances \<Rightarrow>
               if instances = [] then ([], PyStr ''No Instances'')
               else ([], Frame \<lparr>columns = [''Instance'', ''State''],
                      rows = map (\<lambda>i. [''Instance'' \<mapsto> PStr (instance_id i),
                                         ''State'' \<mapsto> PStr (state_Name i)])
                               instances\<rparr>)))
   \<and> (fil self = Some ''all'' \<longrightarrow>
      monitoring_Filters self =
        [\<lparr>Name = ''monitoring-state'', Values = [''enabled'', ''disabled'']\<rparr>]
      \<and> state_Filters self =
        [\<lparr>Name = ''instance-state-name'',
          Values = [''pending'', ''running'', ''shutting-down'', ''terminated'',
                    ''stopping'', ''stopped'']\<rparr>]
      \<and> get_instances_by_monitoring self =
          (case ec2_resource self
                  [\<lparr>Name = ''monitoring-state'', Values = [''enabled'', ''disabled'']\<rparr>] of
             Inl e \<Rightarrow> ([''Something went wrong while getting ec2 instances by monitoring ''], PyNone)
           | Inr instances \<Rightarrow>
               if instances = [] then ([], PyStr ''No Instances'')
               else ([], Frame \<lparr>columns = [''Instance'', ''Monitoring''],
                      rows = map (\<lambda>i. [''Instance'' \<mapsto> PStr (instance_id i),
                                         ''Monitoring'' \<mapsto> PStr (monitoring_State i)])
                               instances\<rparr>))
      \<and> get_instances_by_state self =
          (case ec2_resource self
                  [\<lparr>Name = ''instance-state-name'',
                    Values = [''pending'', ''running'', ''shutting-down'', ''terminated'',
                              ''stopping'', ''stopped'']\<rparr>] of
             Inl e \<Rightarrow> ([''Something went wrong while getting ec2 instances by state.''], PyNone)
           | Inr instances \<Rightarrow>
               if instances = [] then ([], PyStr ''No Instances'')
               else ([], Frame \<lparr>columns = [''Instance'', ''State''],
                      rows = map (\<lambda>i. [''Instance'' \<mapsto> PStr (instance_id i),
                                         ''State'' \<mapsto> PStr (state_Name i)])
                               instances\<rparr>)))"
proof -
  have f: "fil self \<noteq> Some ''all'' \<Longrightarrow>
      monitoring_Filters self = [\<lparr>Name = ''monitoring-state'', Values = ['''']\<rparr>]
      \<and> state_Filters self = [\<lparr>Name = ''instance-state-name'', Values = ['''']\<rparr>]"
    and a: "fil self = Some ''all'' \<Longrightarrow>
      monitoring_Filters self =
        [\<lparr>Name = ''monitoring-state'', Values = [''enabled'', ''disabled'']\<rparr>]
      \<and> state_Filters self =
        [\<lparr>Name = ''instance-state-name'',
          Values = [''pending'', ''running'', ''shutting-down'', ''terminated'',
                    ''stopping'', ''stopped'']\<rparr>]"
    by (simp_all add: monitoring_Filters_def state_Filters_def monitoring_values_def
          state_values_def)
  have n: "fil self \<noteq> Some ''all'' \<Longrightarrow>
      get_instances_by_monitoring self = get_instances_by_monitoring (self\<lparr>fil := None\<rparr>)
      \<and> get_instances_by_state self = get_instances_by_state (self\<lparr>fil := None\<rparr>)"
    by (simp add: monitoring_Filters_def state_Filters_def monitoring_values_def
          state_values_def get_instances_by_monitoring_def get_instances_by_state_def)
  show ?thesis
    using f a n
      get_instances_by_monitoring_cases [of self] get_instances_by_state_cases [of self]
    by (cases "fil self = Some ''all''") simp_all
qed

theorem instance_filter_values_witness:
  "monitoring_Filters (ec2_scanner (Some ''running'') [instance_running]) =
     [\<lparr>Name = ''monitoring-state'', Values = ['''']\<rparr>]
   \<and> state_Filters (ec2_scanner (Some ''running'') [instance_running]) =
     [\<lparr>Name = ''instance-state-name'', Values = ['''']\<rparr>]
   \<and> monitoring_Filters (ec2_scanner None [instance_running]) =
     [\<lparr>Name = ''monitoring-state'', Values = ['''']\<rparr>]
   \<and> monitoring_Filters (ec2_scanner (Some ''all'') [instance_running]) =
     [\<lparr>Name = ''monitoring-state'', Values = [''enabled'', ''disabled'']\<rparr>]
   \<and> get_instances_by_state (ec2_scanner (Some ''running'') [instance_running]) =
     ([], PyStr ''No Instances'')
   \<and> get_instances_by_monitoring (ec2_scanner (Some ''all'') [instance_running]) =
     ([], Frame \<lparr>columns = [''Instance'', ''Monitoring''],
            rows = [[''Instance'' \<mapsto> PStr ''i-1'', ''Monitoring'' \<mapsto> PStr ''disabled'']]\<rparr>)"
  using instance_filter_values [of "ec2_scanner (Some ''running'') [instance_running]"]
    instance_filter_values [of "ec2_scanner None [instance_running]"]
    instance_filter_values [of "ec2_scanner (Some ''all'') [instance_running]"]
  by (simp add: examples)

text \<open>
  Claim C3. Each of the two instance queries returns the string \<^verbatim>\<open>"No Instances"\<close>
  exactly when the listing call answers with no instance at all; when it answers with at
  least one instance, the query returns a table of two columns (the identifier, then the
  monitoring state or the lifecycle state) with one row for each instance listed.
\<close>

theorem no_instances_iff:
  "((get_instances_by_monitoring self = ([], PyStr ''No Instances''))
      = (ec2_resource self (monitoring_Filters self) = Inr []))
   \<and> ((get_instances_by_state self = ([], PyStr ''No Instances''))
      = (ec2_resource self (state_Filters self) = Inr []))
   \<and> (ec2_resource self (monitoring_Filters self) = Inr instances \<and> instances \<noteq> []
        \<longrightarrow> get_instances_by_monitoring self =
          ([], Frame \<lparr>columns = [''Instance'', ''Monitoring''],
                 rows = map (\<lambda>i. [''Instance'' \<mapsto> PStr (instance_id i),
                                    ''Monitoring'' \<mapsto> PStr (monitoring_State i)]) instances\<rparr>))
   \<and> (ec2_resource self (state_Filters self) = Inr instances \<and> instances \<noteq> []
        \<longrightarrow> get_instances_by_state self =
          ([], Frame \<lparr>columns = [''Instance'', ''State''],
                 rows = map (\<lambda>i. [''Instance'' \<mapsto> PStr (instance_id i),
                                    ''State'' \<mapsto> PStr (state_Name i)]) instances\<rparr>))"
  by (auto simp: get_instances_by_monitoring_cases get_instances_by_state_cases split: sum.splits)

theorem no_instances_iff_witness:
  "get_instances_by_monitoring (ec2_scanner (Some ''all'') [instance_running]) =
     ([], Frame \<lparr>columns = [''Instance'', ''Monitoring''],
            rows = [[''Instance'' \<mapsto> PStr ''i-1'', ''Monitoring'' \<mapsto> PStr ''disabled'']]\<rparr>)
   \<and> get_instances_by_state (ec2_scanner (Some ''all'') [instance_running]) =
     ([], Frame \<lparr>columns = [''Instance'', ''State''],
            rows = [[''Instance'' \<mapsto> PStr ''i-1'', ''State'' \<mapsto> PStr ''running'']]\<rparr>)
   \<and> get_instances_by_state (ec2_scanner (Some ''all'') []) = ([], PyStr ''No Instances'')
   \<and> get_instances_by_state (ec2_scanner (Some ''running'') [instance_running]) =
     ([], PyStr ''No Instances'')"
proof -
  have a: "ec2_resource (ec2_scanner (Some ''all'') [instance_running])
             (monitoring_Filters (ec2_scanner (Some ''all'') [instance_running])) =
           Inr [instance_running]"
    and b: "ec2_resource (ec2_scanner (Some ''all'') [instance_running])
             (state_Filters (ec2_scanner (Some ''all'') [instance_running])) =
           Inr [instance_running]"
    and c: "ec2_resource (ec2_scanner (Some ''all'') [])
             (state_Filters (ec2_scanner (Some ''all'') [])) = Inr []"
    and d: "ec2_resource (ec2_scanner (Some ''running'') [instance_running])
             (state_Filters (ec2_scanner (Some ''running'') [instance_running])) = Inr []"
    by (simp_all add: examples monitoring_Filters_def state_Filters_def monitoring_values_def
          state_values_def)
  show ?thesis
    using no_instances_iff [of "ec2_scanner (Some ''all'') [instance_running]" "[instance_running]"]
      no_instances_iff [of "ec2_scanner (Some ''all'') []" "[]"]
      no_instances_iff [of "ec2_scanner (Some ''running'') [instance_running]" "[]"]
      a b c d
    by (simp add: instance_running_def)
qed

subsection \<open>Volume scanner\<close>

lemma set_unique: "set (unique xs) = set xs"
  by (simp add: unique_def)

lemma eq_str_iff: "eq_str s c = (c = Some (PStr s))"
  by (cases "(s, c)" rule: eq_str.cases) auto

lemma eq_False_PBool: "c = Some (PBool b) \<Longrightarrow> eq_False c = (c = Some (PBool False))"
  by auto

text \<open>The query by state, branch by branch.\<close>

lemma get_volumes_by_state_cases:
  "get_volumes_by_state self =
     (case ec2_client self of
        Inl e \<Rightarrow> ([''Something went wrong while getting ebs volumes by state.''], PyNone)
      | Inr volume_detail \<Rightarrow>
          (case volumes_table volume_detail of
             Inl e \<Rightarrow> ([''Something went wrong while getting ebs volumes by state.''], PyNone)
           | Inr volumes_df \<Rightarrow>
               if rows volumes_df = [] then ([], PyStr ''No Volumes'')
               else if truthy (fil self) then
                 (if ''State'' \<in> set (columns volumes_df)
                  then ([], Frame (volumes_df\<lparr>rows :=
                          filter (\<lambda>r. r ''State'' = Some (PStr (the (fil self))))
                            (rows volumes_df)\<rparr>))
                  else ([''Something went wrong while getting ebs volumes by state.''], PyNone))
               else ([], Frame volumes_df)))"
  by (simp add: get_volumes_by_state_def try_except_def select_where_def len_def eq_str_iff
           split: sum.splits)


text \<open>
  A dictionary whose list values all have one element gives a frame with one row: every
  scalar as it is, every list replaced by its element.
\<close>

lemma raw_lengths_mem:
  "PList xs \<in> set vals \<Longrightarrow> length xs \<in> set (raw_lengths vals)"
  by (induction vals rule: raw_lengths.induct) auto







text \<open>
  Claim C5. When the call succeeds and every volume carries its boolean encryption flag,
  the query by encryption returns \<^verbatim>\<open>"No Volumes"\<close> for an empty list of volumes, and
  otherwise the frame with one row for each volume, restricted to exactly the rows whose
  \<^verbatim>\<open>Encrypted\<close> cell is the boolean \<^verbatim>\<open>False\<close>, in their order.
\<close>

theorem unencrypted_volumes:
  assumes "ec2_client self = Inr response"
    and "\<forall>v \<in> set (Volumes response). \<exists>b. map_of v ''Encrypted'' = Some (PBool b)"
  shows "get_volumes_by_encryption self =
     (if Volumes response = [] then ([], PyStr ''No Volumes'')
      else ([], Frame \<lparr>columns = unique (concat (map (map fst) (Volumes response))),
                        rows = filter (\<lambda>r. r ''Encrypted'' = Some (PBool False))
                                 (map map_of (Volumes response))\<rparr>))"
proof (cases "Volumes response = []")
  case True
  with assms(1) show ?thesis
    by (simp add: get_volumes_by_encryption_def try_except_def DataFrame_records_def len_def)
next
  case False
  then obtain v vs where vs: "Volumes response = v # vs"
    by (cases "Volumes response") auto
  with assms(2) obtain b where "map_of v ''Encrypted'' = Some (PBool b)"
    by auto
  then have "''Encrypted'' \<in> fst ` set v"
    by (auto dest!: map_of_SomeD intro: rev_image_eqI)
  then have col: "''Encrypted'' \<in> set (columns (DataFrame_records (Volumes response)))"
    by (auto simp: DataFrame_records_def set_unique vs)
  have "filter (\<lambda>r. eq_False (r ''Encrypted'')) (map map_of (Volumes response)) =
        filter (\<lambda>r. r ''Encrypted'' = Some (PBool False)) (map map_of (Volumes response))"
    using assms(2) by (intro filter_cong refl) (auto simp: eq_False_PBool)
  with col False assms(1) show ?thesis
    by (simp add: get_volumes_by_encryption_def try_except_def select_where_def len_def
          DataFrame_records_def Let_def)
qed

theorem unencrypted_volumes_witness:
  "get_volumes_by_encryption
       (ebs_scanner None 200 [volume_attached, volume_encrypted, volume_unattached]) =
     ([], Frame \<lparr>columns = [''Attachments'', ''Encrypted'', ''State'', ''VolumeId''],
                   rows = [map_of volume_attached, map_of volume_unattached]\<rparr>)
   \<and> get_volumes_by_encryption (ebs_scanner None 200 []) = ([], PyStr ''No Volumes'')"
proof -
  let ?vs = "[volume_attached, volume_encrypted, volume_unattached]"
  have h: "\<forall>v \<in> set (Volumes \<lparr>HTTPStatusCode = 200, Volumes = ?vs\<rparr>).
             \<exists>b. map_of v ''Encrypted'' = Some (PBool b)"
    by (auto simp: examples)
  have c: "unique (concat (map (map fst) ?vs)) =
             [''Attachments'', ''Encrypted'', ''State'', ''VolumeId'']"
    by (simp add: examples unique_def)
  have r: "filter (\<lambda>r. r ''Encrypted'' = Some (PBool False)) (map map_of ?vs) =
             [map_of volume_attached, map_of volume_unattached]"
    by (simp add: examples)
  have a: "get_volumes_by_encryption (ebs_scanner None 200 ?vs) =
     ([], Frame \<lparr>columns = [''Attachments'', ''Encrypted'', ''State'', ''VolumeId''],
                   rows = [map_of volume_attached, map_of volume_unattached]\<rparr>)"
    using unencrypted_volumes [of "ebs_scanner None 200 ?vs"
        "\<lparr>HTTPStatusCode = 200, Volumes = ?vs\<rparr>", OF _ h] c r
    by (simp add: ebs_scanner_def)
  have b: "get_volumes_by_encryption (ebs_scanner None 200 []) = ([], PyStr ''No Volumes'')"
    using unencrypted_volumes [of "ebs_scanner None 200 []"
        "\<lparr>HTTPStatusCode = 200, Volumes = []\<rparr>"]
    by (simp add: ebs_scanner_def)
  from a b show ?thesis by simp
qed




text \<open>
  Claim C7. In the query by state the loop over the volumes runs only under the test that
  the status code is 200: for a response with any other status code the table stays empty
  and the query returns \<^verbatim>\<open>"No Volumes"\<close>, whatever volumes the response carries. The
  query by encryption does not read the status code: it returns for that response what it
  returns for the same volumes under status 200.
\<close>

theorem volumes_status_check:
  assumes "ec2_client self = Inr volume_detail" and "HTTPStatusCode volume_detail \<noteq> 200"
  shows "volumes_table volume_detail = Inr DataFrame_empty
     \<and> get_volumes_by_state self = ([], PyStr ''No Volumes'')
     \<and> get_volumes_by_encryption self =
         get_volumes_by_encryption
           (self\<lparr>ec2_client := Inr (volume_detail\<lparr>HTTPStatusCode := 200\<rparr>)\<rparr>)"
  using assms
  by (simp add: volumes_table_def get_volumes_by_state_cases DataFrame_empty_def
        get_volumes_by_encryption_def)

theorem volumes_status_check_witness:
  "get_volumes_by_state (ebs_scanner None 503 [volume_attached]) = ([], PyStr ''No Volumes'')
   \<and> get_volumes_by_encryption (ebs_scanner None 503 [volume_attached]) =
       get_volumes_by_encryption (ebs_scanner None 200 [volume_attached])"
  using volumes_status_check [of "ebs_scanner None 503 [volume_attached]"
      "\<lparr>HTTPStatusCode = 503, Volumes = [volume_attached]\<rparr>"]
  by (simp add: ebs_scanner_def)




text \<open>
  A volume's dictionary with an empty list among its values gives a frame with no rows:
  the loop of the query by state adds nothing for it.
\<close>

lemma remdups_single:
  assumes "\<not> 1 < length (remdups ns)" and "n \<in> set ns"
  shows "hd ns = n"
proof -
  from assms(2) have ne: "ns \<noteq> []" by auto
  then have "hd ns \<in> set (remdups ns)" and "n \<in> set (remdups ns)"
    using assms(2) by simp_all
  moreover have "length (remdups ns) \<le> 1"
    using assms(1) by simp
  ultimately show ?thesis
    by (cases "remdups ns") (auto simp: length_Suc_conv)
qed

lemma empty_list_no_rows:
  assumes "(k, PList []) \<in> set each_volume" and "DataFrame_dict each_volume = Inr df"
  shows "rows df = []"
proof -
  let ?vals = "map snd each_volume"
  from assms(1) have "PList [] \<in> set ?vals"
    by force
  then have z: "0 \<in> set (raw_lengths ?vals)"
    using raw_lengths_mem [of "[]" ?vals] by simp
  then have ne: "raw_lengths ?vals \<noteq> []" and ve: "?vals \<noteq> []"
    by auto
  from assms(2) ne ve obtain single: "\<not> 1 < length (remdups (raw_lengths ?vals))"
    and df: "df = \<lparr>columns = map fst each_volume,
                   rows = map (\<lambda>i. row_with (cell_at i) each_volume)
                            [0..<hd (raw_lengths ?vals)]\<rparr>"
    by (auto simp: DataFrame_dict_def extract_index_def split: if_splits)
  from remdups_single [OF single z] df show ?thesis
    by simp
qed

text \<open>Lists of two lengths among the values make \<^verbatim>\<open>pd.DataFrame\<close> raise: for a volume
  with one attachment and two tags the query prints its message and returns \<^verbatim>\<open>None\<close>.\<close>

lemma tagged_volume_raises:
  "get_volumes_by_state (ebs_scanner None 200 [volume_tagged]) =
     ([''Something went wrong while getting ebs volumes by state.''], PyNone)"
  by (simp add: volume_tagged_def ebs_scanner_def get_volumes_by_state_cases volumes_table_def
        DataFrame_dict_def extract_index_def)

text \<open>
  Claim C4 says that for volumes fetched and no filter the query by state returns all of
  them. The code does not: for a response with status 200 whose only volume is attached to
  nothing (\<^verbatim>\<open>'Attachments': []\<close>), \<^verbatim>\<open>pd.DataFrame(each_volume)\<close> has no rows, the
  accumulated table is empty and the query returns \<^verbatim>\<open>"No Volumes"\<close>; beside an attached
  volume, the unattached one is missing from the table returned. The query by encryption,
  which builds its frame from the list of volumes, has a row for the same volume.
\<close>

theorem unattached_volume_dropped:
  "get_volumes_by_state (ebs_scanner None 200 [volume_unattached]) = ([], PyStr ''No Volumes'')
   \<and> get_volumes_by_state (ebs_scanner None 200 [volume_attached, volume_unattached]) =
       ([], Frame \<lparr>columns = [''Attachments'', ''Encrypted'', ''State'', ''VolumeId''],
                     rows = [row_with (cell_at 0) volume_attached]\<rparr>)
   \<and> get_volumes_by_encryption (ebs_scanner None 200 [volume_unattached]) =
       ([], Frame \<lparr>columns = [''Attachments'', ''Encrypted'', ''State'', ''VolumeId''],
                     rows = [map_of volume_unattached]\<rparr>)"
  by (simp add: examples get_volumes_by_state_cases volumes_table_def DataFrame_dict_def
        extract_index_def pd_concat_def DataFrame_empty_def get_volumes_by_encryption_def
        DataFrame_records_def select_where_def try_except_def len_def unique_def)

subsection \<open>Credential resolver\<close>

text \<open>
  Claim C2, as the claim states it, fails: a key written under \<^verbatim>\<open>[DEFAULT]\<close> only is
  among the keys \<^verbatim>\<open>get_profiles("default")\<close> returns. For the file with
  \<^verbatim>\<open>region\<close> under \<^verbatim>\<open>[DEFAULT]\<close> and \<^verbatim>\<open>aws_access_key_id\<close> under
  \<^verbatim>\<open>[default]\<close>, the result has both keys, and is not the section as written.
\<close>

theorem get_profiles_own_keys_counterexample:
  "p_sections config_inherit ''default'' = Some [''aws_access_key_id'' \<mapsto> ''AKIA'']
   \<and> get_profiles (Some ''default'') config_inherit =
       Profile (Some [''region'' \<mapsto> ''us-east-1'', ''aws_access_key_id'' \<mapsto> ''AKIA''])
   \<and> get_profiles (Some ''default'') config_inherit \<noteq>
       Profile (Some [''aws_access_key_id'' \<mapsto> ''AKIA''])"
proof -
  have "[''region'' \<mapsto> ''us-east-1'', ''aws_access_key_id'' \<mapsto> ''AKIA''] ''region''
          \<noteq> [''aws_access_key_id'' \<mapsto> ''AKIA''] ''region''"
    by simp
  then have "[''region'' \<mapsto> ''us-east-1'', ''aws_access_key_id'' \<mapsto> ''AKIA'']
          \<noteq> [''aws_access_key_id'' \<mapsto> ''AKIA'']"
    by metis
  then show ?thesis
    by (simp add: get_profiles_def proxy_dict_def config_inherit_def)
qed

text \<open>
  Claim C2, amended. For a parser with a section \<^verbatim>\<open>default\<close>,
  \<^verbatim>\<open>get_profiles("default")\<close> returns the options written in that section together
  with the options of \<^verbatim>\<open>[DEFAULT]\<close> the section does not write itself (for an option
  written in both, the section's value). The section \<^verbatim>\<open>DEFAULT\<close> itself is never
  returned: asked for by name the result is \<^verbatim>\<open>None\<close>, and the dictionary of all
  profiles has no entry for it.
\<close>

theorem get_profiles_default:
  assumes "p_sections config ''default'' = Some own"
  shows "get_profiles (Some ''default'') config = Profile (Some (p_defaults config ++ own))
     \<and> dom (p_defaults config ++ own) = dom own \<union> dom (p_defaults config)
     \<and> get_profiles (Some ''DEFAULT'') config = Profile None
     \<and> (\<exists>d. get_profiles None config = All_Profiles d \<and> d ''DEFAULT'' = None)"
  using assms by (auto simp: get_profiles_def proxy_dict_def)

theorem get_profiles_default_witness:
  "get_profiles (Some ''default'') config_inherit =
       Profile (Some [''region'' \<mapsto> ''us-east-1'', ''aws_access_key_id'' \<mapsto> ''AKIA''])
   \<and> get_profiles (Some ''DEFAULT'') config_inherit = Profile None"
  using get_profiles_default [of config_inherit "[''aws_access_key_id'' \<mapsto> ''AKIA'']"]
  by (simp add: config_inherit_def)

subsection \<open>Command dispatcher\<close>

text \<open>
  Claim C10. Started with no argument at all, the script raises
  \<^verbatim>\<open>Exception('Please provide arguments.')\<close> and nothing has happened before: no
  call of \<^verbatim>\<open>getopt\<close>, no help printed, no scanner constructed, no query called.
\<close>

theorem no_arguments:
  "main [] = ([], Inl (Exception ''Please provide arguments.''))"
  by (simp add: main_def)

text \<open>\<^verbatim>\<open>getopt\<close> raises nothing but \<^verbatim>\<open>GetoptError\<close>.\<close>

lemma long_has_args_error:
  "long_has_args opt longopts = Inl e \<Longrightarrow> \<exists>m. e = GetoptError m"
  by (auto simp: long_has_args_def Let_def split: if_splits)

lemma do_longs_error:
  "do_longs opts opt longopts args = Inl e \<Longrightarrow> \<exists>m. e = GetoptError m"
  by (auto simp: do_longs_def Let_def dest: long_has_args_error
        split: sum.splits if_splits option.splits list.splits)

lemma short_has_arg_error:
  "short_has_arg opt shortopts = Inl e \<Longrightarrow> \<exists>m. e = GetoptError m"
  by (induction shortopts) (auto split: if_splits)

lemma do_shorts_error:
  "do_shorts opts optstring shortopts args = Inl e \<Longrightarrow> \<exists>m. e = GetoptError m"
  by (induction opts optstring shortopts args rule: do_shorts.induct)
     (auto dest: short_has_arg_error split: sum.splits if_splits list.splits bool.splits)

lemma getopt_loop_error:
  "getopt_loop opts args shortopts longopts = Inl e \<Longrightarrow> \<exists>m. e = GetoptError m"
  by (induction opts args shortopts longopts rule: getopt_loop.induct)
     (auto dest: do_longs_error do_shorts_error split: sum.splits if_splits)

lemma getopt_error:
  "getopt args shortopts longopts = Inl e \<Longrightarrow> \<exists>m. e = GetoptError m"
  by (auto simp: getopt_def dest: getopt_loop_error)

lemma arguments_dict_given:
  "(map_of (rev arguments) name \<noteq> None) = (name \<in> fst ` set arguments)"
  by (simp add: map_of_eq_None_iff)

text \<open>The branch for \<^verbatim>\<open>ec2\<close> and \<^verbatim>\<open>ebs\<close>, once \<^verbatim>\<open>getopt\<close> has returned.\<close>

lemma scan_branch_parsed:
  assumes "aws_service = ''ec2'' \<or> aws_service = ''ebs''"
    and "getopt args options long_options = Inr (arguments, vals)"
  shows "scan_branch aws_service args =
     (if map_of (rev arguments) ''--operation'' \<noteq> None
         \<and> map_of (rev arguments) ''--region'' \<noteq> None
         \<and> map_of (rev arguments) ''--profile'' \<noteq> None
      then ([Getopt args,
             Construct (if aws_service = ''ec2'' then ''EC2_Scanner'' else ''EBS_Scanner'')
               \<lparr>profile = the (map_of (rev arguments) ''--profile''),
                region = the (map_of (rev arguments) ''--region''),
                operation = the (map_of (rev arguments) ''--operation''),
                fil = map_of (rev arguments) ''--filter'',
                sort' = map_of (rev arguments) ''--sort''\<rparr>,
             Call (if aws_service = ''ec2''
                   then (if map_of (rev arguments) ''--operation'' = Some ''state''
                         then ''get_instances_by_state'' else ''get_instances_by_monitoring'')
                   else (if map_of (rev arguments) ''--operation'' = Some ''state''
                         then ''get_volumes_by_state'' else ''get_volumes_by_encryption''))],
            Inr ())
      else ([Getopt args],
            Inl (ValueError ''Missing any argument: --operation,--region,--profile'')))"
  using assms by (simp add: scan_branch_def Let_def)

text \<open>What \<^verbatim>\<open>getopt\<close> finds stands on the command line: an option
  \<^verbatim>\<open>--name\<close> is found only when some argument begins with \<^verbatim>\<open>--\<close> and the first
  letter of the name.\<close>

lemma long_has_args_name:
  assumes "long_has_args opt long_options = Inr (has_arg, name)"
  shows "opt \<noteq> [] \<and> startswith name opt"
proof -
  let ?ps = "filter (\<lambda>l. startswith l opt) long_options"
  have ne: "opt \<noteq> []"
    using assms by (auto simp: long_has_args_def long_options_def startswith_def)
  have "startswith name opt"
  proof (cases "opt \<in> set ?ps \<or> opt @ ''='' \<in> set ?ps")
    case True
    with assms have "name = opt"
      by (auto simp: long_has_args_def Let_def split: if_splits)
    then show ?thesis by (simp add: startswith_def)
  next
    case False
    with assms have ps: "?ps \<noteq> []" and name: "name = butlast (hd ?ps) \<or> name = hd ?ps"
      by (auto simp: long_has_args_def Let_def split: if_splits)
    from ps have "hd ?ps \<in> set ?ps" by (rule hd_in_set)
    then have st: "take (length opt) (hd ?ps) = opt" and neq: "hd ?ps \<noteq> opt"
      using False by (auto simp: startswith_def)
    have "length (take (length opt) (hd ?ps)) = length opt"
      by (simp only: st)
    then have "length opt \<le> length (hd ?ps)"
      by (simp add: min_def split: if_splits)
    moreover have "length opt \<noteq> length (hd ?ps)"
      using st neq by auto
    ultimately have "length opt < length (hd ?ps)"
      by simp
    with st have "startswith (butlast (hd ?ps)) opt"
      by (simp add: startswith_def butlast_conv_take)
    with st name show ?thesis by (auto simp: startswith_def)
  qed
  with ne show ?thesis by simp
qed

lemma do_longs_found:
  assumes "do_longs opts opt long_options args = Inr (opts', args')"
  shows "\<exists>name v. opts' = opts @ [(''--'' @ name, v)] \<and> name \<noteq> [] \<and> opt \<noteq> []
           \<and> hd name = hd opt"
proof -
  let ?o = "takeWhile (\<lambda>c. c \<noteq> CHR ''='') opt"
  from assms obtain has_arg name v
    where l: "long_has_args ?o long_options = Inr (has_arg, name)"
      and o: "opts' = opts @ [(''--'' @ name, v)]"
    by (auto simp: do_longs_def Let_def split: sum.splits if_splits option.splits list.splits)
  from long_has_args_name [OF l] have ne: "?o \<noteq> []" and st: "take (length ?o) name = ?o"
    by (auto simp: startswith_def)
  from ne have 1: "opt \<noteq> []" and 2: "hd ?o = hd opt"
    by (cases opt; auto split: if_splits)+
  from ne st have 3: "name \<noteq> []"
    by auto
  from ne st have 4: "hd name = hd ?o"
    by (metis hd_take length_greater_0_conv)
  from o 1 2 3 4 show ?thesis by auto
qed

lemma do_longs_rest:
  "do_longs opts opt longopts args = Inr (opts', args') \<Longrightarrow> set args' \<subseteq> set args"
  by (auto simp: do_longs_def Let_def split: sum.splits if_splits option.splits list.splits)

lemma do_shorts_rest:
  "do_shorts opts optstring shortopts args = Inr (opts', args') \<Longrightarrow> set args' \<subseteq> set args"
  by (induction opts optstring shortopts args rule: do_shorts.induct)
     (auto split: sum.splits if_splits list.splits bool.splits)

lemma do_shorts_found:
  "do_shorts opts optstring shortopts args = Inr (opts', args') \<Longrightarrow> (k, v) \<in> set opts'
     \<Longrightarrow> (k, v) \<in> set opts \<or> length k = 2"
proof (induction opts optstring shortopts args rule: do_shorts.induct)
  case (1 opts shortopts args)
  then show ?case by simp
next
  case (2 opts opt optstring shortopts args)
  show ?case
  proof (cases "short_has_arg opt shortopts")
    case (Inl e)
    with "2.prems" show ?thesis by simp
  next
    case (Inr b)
    show ?thesis
    proof (cases b)
      case True
      with Inr "2.prems"(1) have "\<exists>w. opts' = opts @ [([CHR ''-'', opt], w)]"
        by (auto split: if_splits list.splits)
      with "2.prems"(2) show ?thesis by auto
    next
      case False
      with Inr "2.prems"(1)
      have "do_shorts (opts @ [([CHR ''-'', opt], '''')]) optstring shortopts args
              = Inr (opts', args')"
        by simp
      with "2.IH" Inr False "2.prems"(2)
      have "(k, v) \<in> set (opts @ [([CHR ''-'', opt], '''')]) \<or> length k = 2"
        by blast
      then show ?thesis by auto
    qed
  qed
qed

lemma startswith_long:
  assumes "startswith a ''--''" and "drop 2 a \<noteq> []"
  shows "startswith a (''--'' @ [hd (drop 2 a)])"
proof -
  from assms(2) obtain x xs where d: "drop 2 a = x # xs"
    by (cases "drop 2 a") auto
  have t: "take 2 a = ''--''"
    using assms(1) by (simp add: startswith_def numeral_2_eq_2)
  have "a = take 2 a @ drop 2 a"
    by simp
  with t d have "a = ''--'' @ x # xs"
    by simp
  then show ?thesis
    using d by (simp add: startswith_def)
qed

lemma getopt_loop_found:
  "getopt_loop opts args shortopts longopts = Inr (opts', rest) \<Longrightarrow> longopts = long_options
     \<Longrightarrow> (k, v) \<in> set opts'
     \<Longrightarrow> (k, v) \<in> set opts \<or> length k = 2
         \<or> (\<exists>a \<in> set args. \<exists>name. k = ''--'' @ name \<and> name \<noteq> []
                \<and> startswith a (''--'' @ [hd name]))"
proof (induction opts args shortopts longopts arbitrary: opts' rest
         rule: getopt_loop.induct)
  case (1 opts shortopts longopts)
  then show ?case by simp
next
  case (2 opts a args shortopts longopts)
  show ?case
  proof (cases "startswith a ''-'' \<and> a \<noteq> ''-'' \<and> a \<noteq> ''--''")
    case False
    with "2.prems" show ?thesis
      by (auto split: if_splits)
  next
    case opt: True
    show ?thesis
    proof (cases "startswith a ''--''")
      case True
      with opt "2.prems"(1) obtain opts1 args1
        where d: "do_longs opts (drop 2 a) longopts args = Inr (opts1, args1)"
          and g: "getopt_loop opts1 args1 shortopts longopts = Inr (opts', rest)"
        by (auto split: sum.splits)
      from d "2.prems"(2) obtain name w
        where o1: "opts1 = opts @ [(''--'' @ name, w)]" and n: "name \<noteq> []"
          and dn: "drop 2 a \<noteq> []" and h: "hd name = hd (drop 2 a)"
        using do_longs_found by blast
      from startswith_long [OF True dn] h have sa: "startswith a (''--'' @ [hd name])"
        by simp
      have sub: "set args1 \<subseteq> set args"
        using d by (rule do_longs_rest)
      have "(k, v) \<in> set opts1 \<or> length k = 2
         \<or> (\<exists>a \<in> set args1. \<exists>name. k = ''--'' @ name \<and> name \<noteq> []
                \<and> startswith a (''--'' @ [hd name]))"
        using "2.IH"(1) [of "(opts1, args1)" opts1 args1 opts' rest] opt True d g "2.prems"(2,3)
        by simp
      with o1 n sa sub show ?thesis
        by auto
    next
      case False
      with opt "2.prems"(1) obtain opts1 args1
        where d: "do_shorts opts (drop 1 a) shortopts args = Inr (opts1, args1)"
          and g: "getopt_loop opts1 args1 shortopts longopts = Inr (opts', rest)"
        by (auto split: sum.splits)
      have sub: "set args1 \<subseteq> set args"
        using d by (rule do_shorts_rest)
      have "(k, v) \<in> set opts1 \<or> length k = 2
         \<or> (\<exists>a \<in> set args1. \<exists>name. k = ''--'' @ name \<and> name \<noteq> []
                \<and> startswith a (''--'' @ [hd name]))"
        using "2.IH"(2) [of "(opts1, args1)" opts1 args1 opts' rest] opt False d g "2.prems"(2,3)
        by simp
      with do_shorts_found [OF d] sub show ?thesis
        by auto
    qed
  qed
qed

lemma not_given_without_argument:
  assumes "name \<noteq> []" and "\<forall>a \<in> set args. \<not> startswith a (''--'' @ [hd name])"
  shows "\<not> given (''--'' @ name) args"
proof
  assume "given (''--'' @ name) args"
  then obtain arguments vals v
    where g: "getopt_loop [] args options long_options = Inr (arguments, vals)"
      and m: "(''--'' @ name, v) \<in> set arguments"
    by (auto simp: given_def getopt_def split: sum.splits)
  from getopt_loop_found [OF g refl m] assms show False
    by auto
qed

text \<open>The script by what \<^verbatim>\<open>getopt\<close> finds.\<close>

lemma main_by_given:
  assumes "aws_service = ''ec2'' \<or> aws_service = ''ebs''"
  shows "(\<not> (given ''--operation'' args \<and> given ''--region'' args \<and> given ''--profile'' args)
            \<longrightarrow> (\<exists>e. main (aws_service # args) = ([Getopt args], Inl e)
                     \<and> ((\<exists>m. e = GetoptError m)
                        \<or> e = ValueError ''Missing any argument: --operation,--region,--profile'')))
       \<and> (given ''--operation'' args \<and> given ''--region'' args \<and> given ''--profile'' args
            \<longrightarrow> (\<exists>c scanner query.
                   main (aws_service # args) =
                     ([Getopt args, Construct c scanner, Call query], Inr ())
                   \<and> (fil scanner = None) = (\<not> given ''--filter'' args)
                   \<and> (sort' scanner = None) = (\<not> given ''--sort'' args)))"
proof -
  have nohelp: "aws_service \<noteq> ''--help''"
    using assms by auto
  then have main: "main (aws_service # args) = scan_branch aws_service args"
    by (simp add: main_def)
  show ?thesis
  proof (cases "getopt args options long_options")
    case (Inl e)
    then obtain m where "e = GetoptError m"
      using getopt_error by blast
    with Inl assms show ?thesis
      by (simp add: main scan_branch_def given_def)
  next
    case (Inr r)
    then obtain arguments vals where r: "getopt args options long_options = Inr (arguments, vals)"
      by (cases r) auto
    then have g: "given name args = (map_of (rev arguments) name \<noteq> None)" for name
      using arguments_dict_given [of arguments name] by (simp add: given_def)
    show ?thesis
      unfolding main scan_branch_parsed [OF assms r] g by simp
  qed
qed

text \<open>
  Claim C8. For the selector \<^verbatim>\<open>ec2\<close> or \<^verbatim>\<open>ebs\<close>: when one of
  \<^verbatim>\<open>--operation\<close>, \<^verbatim>\<open>--region\<close>, \<^verbatim>\<open>--profile\<close> is not given, the script raises
  an argument error (\<^verbatim>\<open>GetoptError\<close>, or the \<^verbatim>\<open>ValueError\<close> that names the three
  options) and has done nothing but call \<^verbatim>\<open>getopt\<close>: no scanner is constructed and
  no query, so no network call, is made. That is so in particular when no argument begins
  with \<^verbatim>\<open>--o\<close>, or none with \<^verbatim>\<open>--r\<close>, or none with \<^verbatim>\<open>--p\<close>. When the three
  are given the script raises nothing, constructs a scanner and calls one query, whether
  or not \<^verbatim>\<open>--filter\<close> and \<^verbatim>\<open>--sort\<close> are given; the scanner's filter and sort
  order are \<^verbatim>\<open>None\<close> exactly when they are not.
\<close>

theorem required_options:
  assumes "aws_service = ''ec2'' \<or> aws_service = ''ebs''"
  shows "(\<not> (given ''--operation'' args \<and> given ''--region'' args \<and> given ''--profile'' args)
            \<longrightarrow> (\<exists>e. main (aws_service # args) = ([Getopt args], Inl e)
                     \<and> ((\<exists>m. e = GetoptError m)
                        \<or> e = ValueError ''Missing any argument: --operation,--region,--profile'')))
       \<and> ((\<forall>a \<in> set args. \<not> startswith a ''--o'') \<or> (\<forall>a \<in> set args. \<not> startswith a ''--r'')
            \<or> (\<forall>a \<in> set args. \<not> startswith a ''--p'')
            \<longrightarrow> (\<exists>e. main (aws_service # args) = ([Getopt args], Inl e)))
       \<and> (given ''--operation'' args \<and> given ''--region'' args \<and> given ''--profile'' args
            \<longrightarrow> (\<exists>c scanner query.
                   main (aws_service # args) =
                     ([Getopt args, Construct c scanner, Call query], Inr ())
                   \<and> (fil scanner = None) = (\<not> given ''--filter'' args)
                   \<and> (sort' scanner = None) = (\<not> given ''--sort'' args)))"
proof -
  note core = main_by_given [OF assms, of args]
  have "\<not> given ''--operation'' args" if "\<forall>a \<in> set args. \<not> startswith a ''--o''"
    using not_given_without_argument [of "''operation''" args] that by simp
  moreover have "\<not> given ''--region'' args" if "\<forall>a \<in> set args. \<not> startswith a ''--r''"
    using not_given_without_argument [of "''region''" args] that by simp
  moreover have "\<not> given ''--profile'' args" if "\<forall>a \<in> set args. \<not> startswith a ''--p''"
    using not_given_without_argument [of "''profile''" args] that by simp
  ultimately have "(\<forall>a \<in> set args. \<not> startswith a ''--o'') \<or> (\<forall>a \<in> set args. \<not> startswith a ''--r'')
            \<or> (\<forall>a \<in> set args. \<not> startswith a ''--p'')
            \<longrightarrow> (\<exists>e. main (aws_service # args) = ([Getopt args], Inl e))"
    using core by blast
  with core show ?thesis
    by blast
qed

theorem required_options_witness:
  "main [''ebs'', ''--operation'', ''state'', ''--region'', ''us-east-1''] =
     ([Getopt [''--operation'', ''state'', ''--region'', ''us-east-1'']],
      Inl (ValueError ''Missing any argument: --operation,--region,--profile''))
   \<and> main [''ec2'', ''--operation'', ''state'', ''--region'', ''us-east-1'', ''--profile'',
             ''default''] =
     ([Getopt [''--operation'', ''state'', ''--region'', ''us-east-1'', ''--profile'', ''default''],
       Construct ''EC2_Scanner''
         \<lparr>profile = ''default'', region = ''us-east-1'', operation = ''state'',
          fil = None, sort' = None\<rparr>,
       Call ''get_instances_by_state''], Inr ())"
proof -
  let ?a = "[''--operation'', ''state'', ''--region'', ''us-east-1'']"
  let ?b = "[''--operation'', ''state'', ''--region'', ''us-east-1'', ''--profile'', ''default'']"
  have ga: "getopt ?a options long_options =
              Inr ([(''--operation'', ''state''), (''--region'', ''us-east-1'')], [])"
    by (simp add: getopt_eval)
  have gb: "getopt ?b options long_options =
              Inr ([(''--operation'', ''state''), (''--region'', ''us-east-1''),
                    (''--profile'', ''default'')], [])"
    by (simp add: getopt_eval)
  have a: "\<not> given ''--profile'' ?a"
    by (simp add: given_def ga)
  have b: "given ''--operation'' ?b \<and> given ''--region'' ?b \<and> given ''--profile'' ?b"
    and nf: "\<not> given ''--filter'' ?b" and ns: "\<not> given ''--sort'' ?b"
    by (simp_all add: given_def gb)
  from required_options [of "''ebs''" ?a] a
  have "\<exists>e. main (''ebs'' # ?a) = ([Getopt ?a], Inl e)"
    by blast
  moreover have "snd (main (''ebs'' # ?a)) =
      Inl (ValueError ''Missing any argument: --operation,--region,--profile'')"
    by (simp add: main_def scan_branch_def ga)
  ultimately have 1: "main (''ebs'' # ?a) =
      ([Getopt ?a], Inl (ValueError ''Missing any argument: --operation,--region,--profile''))"
    by auto
  from required_options [of "''ec2''" ?b] b nf ns
  obtain c scanner q
    where m: "main (''ec2'' # ?b) = ([Getopt ?b, Construct c scanner, Call q], Inr ())"
      and f: "fil scanner = None" and s: "sort' scanner = None"
    by auto
  have 2: "main (''ec2'' # ?b) =
     ([Getopt ?b,
       Construct ''EC2_Scanner''
         \<lparr>profile = ''default'', region = ''us-east-1'', operation = ''state'',
          fil = None, sort' = None\<rparr>,
       Call ''get_instances_by_state''], Inr ())"
    by (simp add: main_def scan_branch_def gb)
  from 1 2 show ?thesis by simp
qed

end
